theory Spec2Isabelle
  imports Main "HOL-Library.Word"
begin

unbundle bit_operations_syntax

section \<open>The TCP segment and its wire format\<close>

text \<open>
  The latency tool sends one hand-built TCP SYN segment over a raw socket and times the
  RST or SYN/ACK that comes back. \<^verbatim>\<open>latency.go\<close> holds the orchestration
  (\<^verbatim>\<open>latency\<close>, \<^verbatim>\<open>sendSyn\<close>, \<^verbatim>\<open>to4byte\<close>, \<^verbatim>\<open>receiveSynAck\<close>);
  the header type and its codec (\<^verbatim>\<open>TCPHeader\<close>, \<^verbatim>\<open>Marshal\<close>, \<^verbatim>\<open>NewTCPHeader\<close>,
  \<^verbatim>\<open>HasFlag\<close>, \<^verbatim>\<open>Csum\<close>) are used by it but declared elsewhere.
\<close>

type_synonym byte = "8 word"
type_synonym uint16 = "16 word"
type_synonym uint32 = "32 word"

text \<open>
  Modelled from the spec: the declaration of \<^verbatim>\<open>TCPHeader\<close> is missing. The field names
  are those of the struct literal in \<^verbatim>\<open>sendSyn\<close>; the widths are those of section 3 of
  the specification (16-bit ports, window, checksum and urgent pointer, 32-bit sequence
  and acknowledgment numbers) and of the comments in \<^verbatim>\<open>sendSyn\<close> (4 bits of data offset,
  3 reserved bits, 3 ECN bits, 6 control bits, each held in a byte). The 9-bit flag set of
  the specification (NS, CWR, ECE, URG, ACK, PSH, RST, SYN, FIN) is ECN followed by Ctrl.
  Options are the specification's sequence of option bytes.
\<close>

record TCPHeader =
  Source :: uint16
  Destination :: uint16
  SeqNum :: uint32
  AckNum :: uint32
  DataOffset :: byte
  Reserved :: byte
  ECN :: byte
  Ctrl :: byte
  Window :: uint16
  Checksum :: uint16
  Urgent :: uint16
  Options :: "byte list"

text \<open>
  Modelled from the spec: the flag constants are missing. The specification lists the flag
  set as a bitmask ending in RST, SYN, FIN; the comment in \<^verbatim>\<open>sendSyn\<close>
  (\<^verbatim>\<open>000010, SYN bit set\<close>) fixes SYN at 2.
\<close>

definition FIN :: byte where "FIN = 1"
definition SYN :: byte where "SYN = 2"
definition RST :: byte where "RST = 4"
definition PSH :: byte where "PSH = 8"
definition ACK :: byte where "ACK = 16"
definition URG :: byte where "URG = 32"

text \<open>
  Modelled from the spec: \<^verbatim>\<open>HasFlag\<close> is missing. Section 4.1: it tests a single bit of
  the flag set.
\<close>

definition HasFlag :: "TCPHeader \<Rightarrow> byte \<Rightarrow> bool" where
  "HasFlag tcp flagBit = (Ctrl tcp AND flagBit \<noteq> 0)"

subsection \<open>Network byte order\<close>

definition be16 :: "uint16 \<Rightarrow> byte list" where
  "be16 w = [ucast (drop_bit 8 w), ucast w]"

definition be32 :: "uint32 \<Rightarrow> byte list" where
  "be32 w = [ucast (drop_bit 24 w), ucast (drop_bit 16 w), ucast (drop_bit 8 w), ucast w]"

definition rd16 :: "byte \<Rightarrow> byte \<Rightarrow> uint16" where
  "rd16 hi lo = push_bit 8 (ucast hi) OR ucast lo"

definition rd32 :: "byte \<Rightarrow> byte \<Rightarrow> byte \<Rightarrow> byte \<Rightarrow> uint32" where
  "rd32 b0 b1 b2 b3 =
     push_bit 24 (ucast b0) OR push_bit 16 (ucast b1) OR push_bit 8 (ucast b2) OR ucast b3"

subsection \<open>Encoding and decoding\<close>

text \<open>
  Modelled from the spec: \<^verbatim>\<open>Marshal\<close> is missing. Section 4.1: source port (2 bytes),
  destination port (2 bytes), sequence number (4 bytes), acknowledgment number (4 bytes),
  one byte packing the data offset (4 bits), the reserved bits (3 bits) and the high bit
  of the flags, one byte packing the remaining 8 flag bits, window size (2 bytes),
  checksum (2 bytes), urgent pointer (2 bytes), then the raw option bytes, all in network
  byte order.
\<close>

definition pack_hi :: "TCPHeader \<Rightarrow> byte" where
  "pack_hi tcp = push_bit 4 (DataOffset tcp) OR push_bit 1 (Reserved tcp) OR drop_bit 2 (ECN tcp)"

definition pack_lo :: "TCPHeader \<Rightarrow> byte" where
  "pack_lo tcp = push_bit 6 (ECN tcp) OR Ctrl tcp"

definition Marshal :: "TCPHeader \<Rightarrow> byte list" where
  "Marshal tcp =
     be16 (Source tcp) @ be16 (Destination tcp) @ be32 (SeqNum tcp) @ be32 (AckNum tcp) @
     [pack_hi tcp, pack_lo tcp] @
     be16 (Window tcp) @ be16 (Checksum tcp) @ be16 (Urgent tcp) @ Options tcp"

text \<open>
  Modelled from the spec: \<^verbatim>\<open>NewTCPHeader\<close> is missing. Section 4.1: the inverse of the
  encoding; the caller must supply at least 20 bytes, fewer is a caller error, which is
  \<open>None\<close> here. Section 3: option bytes of a received segment are those that the data
  offset announces beyond the 20 bytes of the fixed header.
\<close>

definition NewTCPHeader :: "byte list \<Rightarrow> TCPHeader option" where
  "NewTCPHeader data =
     (if length data < 20 then None
      else Some \<lparr>
        Source = rd16 (data ! 0) (data ! 1),
        Destination = rd16 (data ! 2) (data ! 3),
        SeqNum = rd32 (data ! 4) (data ! 5) (data ! 6) (data ! 7),
        AckNum = rd32 (data ! 8) (data ! 9) (data ! 10) (data ! 11),
        DataOffset = drop_bit 4 (data ! 12),
        Reserved = drop_bit 1 (data ! 12) AND 7,
        ECN = push_bit 2 (data ! 12 AND 1) OR drop_bit 6 (data ! 13),
        Ctrl = data ! 13 AND 63,
        Window = rd16 (data ! 14) (data ! 15),
        Checksum = rd16 (data ! 16) (data ! 17),
        Urgent = rd16 (data ! 18) (data ! 19),
        Options = take (4 * unat (drop_bit 4 (data ! 12)) - 20) (drop 20 data) \<rparr>)"

text \<open>
  A validly constructed segment without options: the data offset is the 5 words of the
  fixed header, and every packed field fits its width (3 reserved bits, 3 ECN bits,
  6 control bits).
\<close>

definition valid_plain :: "TCPHeader \<Rightarrow> bool" where
  "valid_plain tcp =
     (DataOffset tcp = 5 \<and> Reserved tcp < 8 \<and> ECN tcp < 8 \<and> Ctrl tcp < 64 \<and> Options tcp = [])"


subsection \<open>Checksum\<close>

type_synonym ip4 = "byte \<times> byte \<times> byte \<times> byte"

text \<open>
  Modelled from the spec: \<^verbatim>\<open>Csum\<close> is missing. Section 4.2: the pseudo-header is the
  source address (4 bytes), the destination address (4 bytes), a zero byte, the protocol
  number 6 and the length of the segment (2 bytes); it is followed by the segment bytes;
  all 16-bit words are summed with end-around carry and the one's complement of the sum
  is returned. When the number of bytes is odd, the last byte is the high byte of a last
  word whose low byte is zero. The segment bytes are summed as they are given: the
  caller passes a serialization whose checksum field is 0.
\<close>

definition pseudoHeader :: "ip4 \<Rightarrow> ip4 \<Rightarrow> nat \<Rightarrow> byte list" where
  "pseudoHeader srcip dstip n =
     (case srcip of (s0, s1, s2, s3) \<Rightarrow> case dstip of (d0, d1, d2, d3) \<Rightarrow>
        [s0, s1, s2, s3, d0, d1, d2, d3, 0, 6] @ be16 (of_nat n))"

fun words16 :: "byte list \<Rightarrow> uint16 list" where
  "words16 [] = []"
| "words16 [b] = [rd16 b 0]"
| "words16 (a # b # bs) = rd16 a b # words16 bs"

definition add_carry :: "uint16 \<Rightarrow> uint16 \<Rightarrow> uint16" where
  "add_carry a b = (let s = uint a + uint b in word_of_int (s mod 65536 + s div 65536))"

definition Csum :: "byte list \<Rightarrow> ip4 \<Rightarrow> ip4 \<Rightarrow> uint16" where
  "Csum data srcip dstip =
     NOT (foldl add_carry 0 (words16 (pseudoHeader srcip dstip (length data) @ data)))"

section \<open>Addresses\<close>

text \<open>
  Everything that ends the process is a value of \<open>failure\<close>: the \<^verbatim>\<open>log.Fatalf\<close> calls
  of \<^verbatim>\<open>latency.go\<close>, each named after the call it reports, the run-time panic of an
  index out of range, and the decoding of fewer than 20 bytes, which the specification
  leaves undefined.
\<close>

datatype failure =
    LookupHostFailed
  | To4byteFailed
  | IndexOutOfRange
  | DialFailed
  | WriteFailed
  | ShortWrite
  | ResolveIPAddrFailed
  | ListenIPFailed
  | ReadFromFailed
  | ShortSegment

text \<open>
  \<^verbatim>\<open>strings.Split(addr, ".")\<close> of the Go library, for a separator of one character: the
  parts between the separators, always at least one part.
\<close>

fun Split :: "string \<Rightarrow> char \<Rightarrow> string list" where
  "Split [] sep = [[]]"
| "Split (c # cs) sep =
     (if c = sep then [] # Split cs sep
      else (case Split cs sep of [] \<Rightarrow> [[c]] | p # ps \<Rightarrow> (c # p) # ps))"

text \<open>
  \<^verbatim>\<open>strconv.Atoi\<close> of the Go library, with a 64-bit \<^verbatim>\<open>int\<close>: an optional sign and
  at least one decimal digit. The result is the value and whether an error is returned;
  the value is 0 with a syntax error and the nearest bound with a range error.
\<close>

definition is_digit :: "char \<Rightarrow> bool" where
  "is_digit c = (48 \<le> (of_char c :: int) \<and> (of_char c :: int) \<le> 57)"

definition decimal :: "string \<Rightarrow> int" where
  "decimal ds = foldl (\<lambda>n c. 10 * n + (of_char c - 48)) 0 ds"

definition Atoi :: "string \<Rightarrow> int \<times> bool" where
  "Atoi s =
     (let neg = (s \<noteq> [] \<and> hd s = CHR ''-'');
          ds = (if s \<noteq> [] \<and> (hd s = CHR ''+'' \<or> hd s = CHR ''-'') then tl s else s)
      in if ds = [] \<or> \<not> list_all is_digit ds then (0, True)
         else let n = decimal ds
              in if neg then (if n > 2 ^ 63 then (- (2 ^ 63), True) else (- n, False))
                 else (if n \<ge> 2 ^ 63 then (2 ^ 63 - 1, True) else (n, False)))"

text \<open>
  \<^verbatim>\<open>to4byte\<close> (latency.go): only the error of the first part is looked at; the
  values of the other three are used whatever \<^verbatim>\<open>Atoi\<close> reports. Indexing a part that
  \<^verbatim>\<open>Split\<close> did not return is a run-time panic. \<^verbatim>\<open>byte(b)\<close> keeps the low 8 bits.
\<close>

definition to4byte :: "string \<Rightarrow> failure + ip4" where
  "to4byte addr =
     (let parts = Split addr CHR ''.'' in
      case Atoi (parts ! 0) of (b0, err) \<Rightarrow>
        if err then Inl To4byteFailed
        else if length parts \<le> 1 then Inl IndexOutOfRange
        else case Atoi (parts ! 1) of (b1, _) \<Rightarrow>
          if length parts \<le> 2 then Inl IndexOutOfRange
          else case Atoi (parts ! 2) of (b2, _) \<Rightarrow>
            if length parts \<le> 3 then Inl IndexOutOfRange
            else case Atoi (parts ! 3) of (b3, _) \<Rightarrow>
              Inr (word_of_int b0, word_of_int b1, word_of_int b2, word_of_int b3))"

section \<open>The probe sender\<close>

text \<open>
  Instants are integers (nanoseconds on the clock that \<^verbatim>\<open>time.Now\<close> reads).
  \<^verbatim>\<open>Time.Sub\<close> of the Go library returns a 64-bit \<^verbatim>\<open>Duration\<close> in nanoseconds and
  saturates at its bounds.
\<close>

type_synonym time = int

definition Sub :: "time \<Rightarrow> time \<Rightarrow> int" where
  "Sub t u = max (- (2 ^ 63)) (min (2 ^ 63 - 1) (t - u))"

text \<open>
  What a task does to the outside world, in the order in which it does it: the sockets it
  opens, the clock it reads, the bytes it writes, the datagrams it reads, compares with
  the remote address and decodes.
\<close>

datatype action =
    ADial string
  | ANow
  | AWrite "byte list"
  | AClose
  | AListenIP string
  | AReadFrom
  | AFilter string
  | ADecode "byte list"

text \<open>
  What the outside world answers to \<^verbatim>\<open>sendSyn\<close>: the number \<^verbatim>\<open>rand.Uint32()\<close>
  draws, whether \<^verbatim>\<open>net.Dial\<close> succeeds, the reading of \<^verbatim>\<open>time.Now()\<close>, and the
  count and the error that \<^verbatim>\<open>conn.Write\<close> returns for the bytes it is given.
\<close>

record send_env =
  rand_Uint32 :: uint32
  Dial_ok :: bool
  Now :: time
  Write :: "byte list \<Rightarrow> nat \<times> bool"

text \<open>The struct literal of \<^verbatim>\<open>sendSyn\<close>.\<close>

definition SynPacket :: "uint16 \<Rightarrow> uint32 \<Rightarrow> TCPHeader" where
  "SynPacket port seq =
     \<lparr> Source = 0xaa47, Destination = port, SeqNum = seq, AckNum = 0, DataOffset = 5,
       Reserved = 0, ECN = 0, Ctrl = 2, Window = 0xaaaa, Checksum = 0, Urgent = 0,
       Options = [] \<rparr>"

text \<open>
  \<^verbatim>\<open>sendSyn\<close> (latency.go): the result is the send time or the failure that ends the
  process, together with the actions performed up to there.
\<close>

definition sendSyn :: "send_env \<Rightarrow> string \<Rightarrow> string \<Rightarrow> uint16 \<Rightarrow> (failure + time) \<times> action list" where
  "sendSyn env laddr raddr port =
     (let packet = SynPacket port (rand_Uint32 env);
          data = Marshal packet
      in case to4byte laddr of Inl e \<Rightarrow> (Inl e, []) | Inr la \<Rightarrow>
         case to4byte raddr of Inl e \<Rightarrow> (Inl e, []) | Inr ra \<Rightarrow>
         let packet = packet\<lparr>Checksum := Csum data la ra\<rparr>;
             data = Marshal packet
         in if \<not> Dial_ok env then (Inl DialFailed, [ADial raddr])
            else let sendTime = Now env in
              case Write env data of (numWrote, err) \<Rightarrow>
                if err then (Inl WriteFailed, [ADial raddr, ANow, AWrite data])
                else if numWrote \<noteq> length data
                  then (Inl ShortWrite, [ADial raddr, ANow, AWrite data])
                else (Inr sendTime, [ADial raddr, ANow, AWrite data, AClose]))"

section \<open>The reply listener\<close>

text \<open>
  What the socket holds for one call of \<^verbatim>\<open>conn.ReadFrom\<close>: the sender's address as
  \<^verbatim>\<open>raddr.String()\<close> prints it, the bytes of the segment, and the reading that
  \<^verbatim>\<open>time.Now()\<close> gives if it is called while this datagram is handled.
\<close>

record datagram =
  src :: string
  payload :: "byte list"
  clock :: time

datatype read_event = ReadErr | Datagram datagram

record listen_env =
  ResolveIPAddr_ok :: bool
  ListenIP_ok :: bool
  reads :: "read_event list"

text \<open>
  \<^verbatim>\<open>conn.ReadFrom(buf)\<close> copies as many bytes as the buffer holds and returns how
  many it copied.
\<close>

definition ReadFrom :: "nat \<Rightarrow> byte list \<Rightarrow> nat \<times> byte list" where
  "ReadFrom n p = (min n (length p), take n p @ replicate (n - length p) 0)"

text \<open>
  The listener ends with a receive time or a failure, or it stays blocked in
  \<^verbatim>\<open>ReadFrom\<close> when nothing more arrives.
\<close>

datatype outcome = Returned time | Failed failure | Blocked

definition prepend :: "action list \<Rightarrow> outcome \<times> action list \<Rightarrow> outcome \<times> action list" where
  "prepend as r = (fst r, as @ snd r)"

text \<open>
  The loop of \<^verbatim>\<open>receiveSynAck\<close> (latency.go), over what the socket delivers. A datagram
  from another address is dropped before the clock is read; \<^verbatim>\<open>receiveTime\<close> keeps its
  last value across iterations.
\<close>

fun receive_loop :: "string \<Rightarrow> time \<Rightarrow> read_event list \<Rightarrow> outcome \<times> action list" where
  "receive_loop remoteAddress receiveTime [] = (Blocked, [AReadFrom])"
| "receive_loop remoteAddress receiveTime (ReadErr # evs) = (Failed ReadFromFailed, [AReadFrom])"
| "receive_loop remoteAddress receiveTime (Datagram d # evs) =
     (case ReadFrom 1024 (payload d) of (numRead, buf) \<Rightarrow>
        if src d \<noteq> remoteAddress
        then prepend [AReadFrom, AFilter (src d)] (receive_loop remoteAddress receiveTime evs)
        else
          let receiveTime = clock d;
              seen = [AReadFrom, AFilter (src d), ANow, ADecode (take numRead buf)]
          in case NewTCPHeader (take numRead buf) of
               None \<Rightarrow> (Failed ShortSegment, seen)
             | Some tcp \<Rightarrow>
                 if HasFlag tcp RST \<or> (HasFlag tcp SYN \<and> HasFlag tcp ACK)
                 then (Returned receiveTime, seen)
                 else prepend seen (receive_loop remoteAddress receiveTime evs))"

definition receiveSynAck :: "listen_env \<Rightarrow> string \<Rightarrow> string \<Rightarrow> outcome \<times> action list" where
  "receiveSynAck env localAddress remoteAddress =
     (if \<not> ResolveIPAddr_ok env then (Failed ResolveIPAddrFailed, [])
      else if \<not> ListenIP_ok env then (Failed ListenIPFailed, [AListenIP localAddress])
      else prepend [AListenIP localAddress] (receive_loop remoteAddress 0 (reads env)))"

section \<open>The orchestrator\<close>

text \<open>
  \<^verbatim>\<open>net.LookupHost\<close> answers with an error (\<open>None\<close>) or with addresses. The listener
  runs as a goroutine beside the sender; each has its own answers from the outside world.
\<close>

record env =
  LookupHost :: "string \<Rightarrow> string list option"
  listener :: listen_env
  sender :: send_env

datatype result = Latency int | Fatal failure | Hangs

record run =
  result :: result
  sent :: "action list"
  listened :: "action list"

text \<open>
  \<^verbatim>\<open>latency\<close> (latency.go). The host is resolved first; a failure there ends the
  process before the goroutine is started. Then both tasks run; any failure ends the
  process, and \<^verbatim>\<open>wg.Wait()\<close> does not return while the listener is blocked. When both
  tasks fail, the scheduler decides whose \<^verbatim>\<open>log.Fatalf\<close> runs first; the failure of the
  sender is reported here. The two lists are the actions of each task when the other one
  does not end the process before.
\<close>

definition latency :: "env \<Rightarrow> string \<Rightarrow> string \<Rightarrow> uint16 \<Rightarrow> run" where
  "latency env localAddr remoteHost port =
     (case LookupHost env remoteHost of
        None \<Rightarrow> \<lparr> result = Fatal LookupHostFailed, sent = [], listened = [] \<rparr>
      | Some addrs \<Rightarrow>
         (case addrs of
            [] \<Rightarrow> \<lparr> result = Fatal IndexOutOfRange, sent = [], listened = [] \<rparr>
          | remoteAddr # _ \<Rightarrow>
             (case receiveSynAck (listener env) localAddr remoteAddr of (received, heard) \<Rightarrow>
              case sendSyn (sender env) localAddr remoteAddr port of (sendResult, done) \<Rightarrow>
                \<lparr> result =
                    (case sendResult of
                       Inl e \<Rightarrow> Fatal e
                     | Inr sendTime \<Rightarrow>
                        (case received of
                           Failed e \<Rightarrow> Fatal e
                         | Blocked \<Rightarrow> Hangs
                         | Returned receiveTime \<Rightarrow> Latency (Sub receiveTime sendTime))),
                  sent = done, listened = heard \<rparr>)))"

section \<open>Observations on runs\<close>

text \<open>The byte sequences handed to \<^verbatim>\<open>conn.Write\<close>, in order.\<close>

fun written :: "action list \<Rightarrow> byte list list" where
  "written [] = []"
| "written (AWrite d # as) = d # written as"
| "written (a # as) = written as"

text \<open>
  Section 4.4 of the specification, in its words: a datagram is the answer when its source
  matches the remote filter and it decodes to a segment that has the RST flag, or both
  the SYN and the ACK flag.
\<close>

definition qualifies :: "string \<Rightarrow> datagram \<Rightarrow> bool" where
  "qualifies remote d =
     (src d = remote \<and>
      (case NewTCPHeader (take 1024 (payload d)) of
         None \<Rightarrow> False
       | Some tcp \<Rightarrow> HasFlag tcp RST \<or> (HasFlag tcp SYN \<and> HasFlag tcp ACK)))"


text \<open>
  Reading the clock on receipt, before anything else is done with the datagram: every
  read that is followed by another action is followed by the reading of the clock.
\<close>

fun stamped_on_receipt :: "action list \<Rightarrow> bool" where
  "stamped_on_receipt [] = True"
| "stamped_on_receipt (a # as) =
     ((case as of [] \<Rightarrow> True | b # _ \<Rightarrow> a = AReadFrom \<longrightarrow> b = ANow) \<and> stamped_on_receipt as)"

text \<open>
  The order of the actions the loop does perform. Every iteration reads; a read that
  returns a datagram is followed by the comparison of its source with the remote address;
  the clock is read after that comparison, only when the source is the remote address,
  and the decoding follows the reading of the clock.
\<close>

fun is_decode :: "action \<Rightarrow> bool" where
  "is_decode (ADecode bs) = True"
| "is_decode a = False"

fun iterations :: "string \<Rightarrow> action list \<Rightarrow> bool" where
  "iterations remote [] = False"
| "iterations remote (a # as) =
     (a = AReadFrom \<and>
      (case as of
         [] \<Rightarrow> True
       | f # as' \<Rightarrow>
          (case f of
             AFilter s \<Rightarrow>
               if s = remote
               then (case as' of
                       n # d # rest \<Rightarrow> n = ANow \<and> is_decode d \<and> (rest = [] \<or> iterations remote rest)
                     | _ \<Rightarrow> False)
               else iterations remote as'
           | _ \<Rightarrow> False)))"

subsection \<open>Example runs\<close>

text \<open>A sender whose socket opens and takes all the bytes, at time 1000.\<close>

definition good_sender :: send_env where
  "good_sender = \<lparr> rand_Uint32 = 1, Dial_ok = True, Now = 1000,
     Write = (\<lambda>d. (length d, False)) \<rparr>"

text \<open>A sender whose write stops after 12 bytes.\<close>

definition short_sender :: send_env where
  "short_sender = \<lparr> rand_Uint32 = 1, Dial_ok = True, Now = 1000,
     Write = (\<lambda>d. (12, False)) \<rparr>"

text \<open>A sender that draws the sequence number 56379.\<close>

definition zero_sum_sender :: send_env where
  "zero_sum_sender = \<lparr> rand_Uint32 = 56379, Dial_ok = True, Now = 1000,
     Write = (\<lambda>d. (length d, False)) \<rparr>"

text \<open>Segments as they arrive: an ACK, a SYN/ACK and a RST, each of 20 bytes.\<close>

definition ack_segment :: "byte list" where
  "ack_segment = [0, 80, 170, 71, 0, 0, 0, 9, 0, 0, 0, 2, 80, 16, 114, 16, 0, 0, 0, 0]"

definition synack_segment :: "byte list" where
  "synack_segment = [0, 80, 170, 71, 0, 0, 0, 9, 0, 0, 0, 2, 80, 18, 114, 16, 0, 0, 0, 0]"

definition rst_segment :: "byte list" where
  "rst_segment = [0, 80, 170, 71, 0, 0, 0, 0, 0, 0, 0, 2, 80, 20, 0, 0, 0, 0, 0, 0]"

text \<open>
  A listener that hears a RST from a stranger, an ACK from the remote host, then its
  SYN/ACK, then a RST from the remote host.
\<close>

definition busy_listener :: listen_env where
  "busy_listener = \<lparr> ResolveIPAddr_ok = True, ListenIP_ok = True,
     reads = [
       Datagram \<lparr> src = ''10.0.0.9'', payload = rst_segment, clock = 1100 \<rparr>,
       Datagram \<lparr> src = ''192.30.252.131'', payload = ack_segment, clock = 1200 \<rparr>,
       Datagram \<lparr> src = ''192.30.252.131'', payload = synack_segment, clock = 1300 \<rparr>,
       Datagram \<lparr> src = ''192.30.252.131'', payload = rst_segment, clock = 1400 \<rparr> ] \<rparr>"


definition github :: "string \<Rightarrow> string list option" where
  "github host = (if host = ''github.com'' then Some [''192.30.252.131''] else None)"

definition good_env :: env where
  "good_env = \<lparr> LookupHost = github, listener = busy_listener, sender = good_sender \<rparr>"

definition short_env :: env where
  "short_env = \<lparr> LookupHost = github, listener = busy_listener, sender = short_sender \<rparr>"

section \<open>Properties of the codec\<close>

lemma rd16_be16: "rd16 (ucast (drop_bit 8 w)) (ucast w) = w"
  unfolding rd16_def
  apply (rule bit_word_eqI)
  subgoal for n
    by (cases "n < 8") (auto simp: bit_simps)
  done

lemma rd32_be32:
  "rd32 (ucast (drop_bit 24 w)) (ucast (drop_bit 16 w)) (ucast (drop_bit 8 w)) (ucast w) = w"
  unfolding rd32_def
  apply (rule bit_word_eqI)
  subgoal for n
    by (cases "n < 8"; cases "n < 16"; cases "n < 24") (auto simp: bit_simps)
  done

lemma take_bit_byte_self: "(x::byte) < 2 ^ k \<Longrightarrow> take_bit k x = x"
  using less_mask_eq [of x k] by (simp add: take_bit_eq_mask)

lemma join_bits: "push_bit k (drop_bit k w) OR take_bit k w = (w::byte)"
  apply (rule bit_word_eqI)
  subgoal for n
    by (cases "n < k") (auto simp add: bit_simps)
  done

lemma off_tb:
  "drop_bit 4 (push_bit 4 (take_bit 4 d) OR push_bit (Suc 0) (take_bit 3 r) OR
     drop_bit 2 (take_bit 3 x)) = take_bit 4 (d::byte)"
  by (rule bit_word_eqI) (auto simp add: bit_simps simp del: push_bit_Suc)

lemma res_tb:
  "drop_bit (Suc 0) (push_bit 4 (take_bit 4 d) OR push_bit (Suc 0) (take_bit 3 r) OR
     drop_bit 2 (take_bit 3 x)) AND mask 3 = take_bit 3 (r::byte)"
  by (rule bit_word_eqI) (auto simp add: bit_simps simp del: push_bit_Suc drop_bit_Suc)

lemma hi_tb:
  "(push_bit 4 (take_bit 4 d) OR push_bit (Suc 0) (take_bit 3 r) OR
     drop_bit 2 (take_bit 3 x)) AND 1 = drop_bit 2 (take_bit 3 (x::byte))"
  by (rule bit_word_eqI) (auto simp add: bit_simps simp del: push_bit_Suc)

lemma lo_tb: "drop_bit 6 (push_bit 6 (take_bit 3 x) OR take_bit 6 y) = take_bit 2 (x::byte)"
  by (rule bit_word_eqI) (auto simp add: bit_simps)

lemma ctrl_tb: "(push_bit 6 (take_bit 3 x) OR take_bit 6 y) AND mask 6 = take_bit 6 (y::byte)"
  by (rule bit_word_eqI) (auto simp: bit_simps)

lemma ecn_tb:
  "push_bit 2 ((push_bit 4 (take_bit 4 d) OR push_bit (Suc 0) (take_bit 3 r) OR
     drop_bit 2 (take_bit 3 x)) AND 1) OR
   drop_bit 6 (push_bit 6 (take_bit 3 x) OR take_bit 6 y) = take_bit 3 (x::byte)"
  using join_bits [of 2 "take_bit 3 x"] by (simp only: hi_tb lo_tb take_bit_take_bit) simp

lemma unpack_fields:
  fixes d r x y :: byte
  assumes "d < 16" "r < 8" "x < 8" "y < 64"
  shows "drop_bit 4 (push_bit 4 d OR push_bit 1 r OR drop_bit 2 x) = d"
    and "drop_bit 1 (push_bit 4 d OR push_bit 1 r OR drop_bit 2 x) AND 7 = r"
    and "push_bit 2 ((push_bit 4 d OR push_bit 1 r OR drop_bit 2 x) AND 1) OR
           drop_bit 6 (push_bit 6 x OR y) = x"
    and "(push_bit 6 x OR y) AND 63 = y"
proof -
  have d: "take_bit 4 d = d" using assms(1) take_bit_byte_self [of d 4] by simp
  have r: "take_bit 3 r = r" using assms(2) take_bit_byte_self [of r 3] by simp
  have x: "take_bit 3 x = x" using assms(3) take_bit_byte_self [of x 3] by simp
  have y: "take_bit 6 y = y" using assms(4) take_bit_byte_self [of y 6] by simp
  have m3: "(7::byte) = mask 3" and m6: "(63::byte) = mask 6"
    by (simp_all add: mask_eq_exp_minus_1)
  have one: "(1::nat) = Suc 0" by simp
  show "drop_bit 4 (push_bit 4 d OR push_bit 1 r OR drop_bit 2 x) = d"
    using off_tb [of d r x] by (simp only: d r x one)
  show "drop_bit 1 (push_bit 4 d OR push_bit 1 r OR drop_bit 2 x) AND 7 = r"
    using res_tb [of d r x] by (simp only: d r x one m3)
  show "push_bit 2 ((push_bit 4 d OR push_bit 1 r OR drop_bit 2 x) AND 1) OR
           drop_bit 6 (push_bit 6 x OR y) = x"
    using ecn_tb [of d r x y] by (simp only: d r x y one)
  show "(push_bit 6 x OR y) AND 63 = y"
    using ctrl_tb [of x y] by (simp only: x y m6)
qed

lemma Marshal_nth:
  "Marshal tcp ! 0 = ucast (drop_bit 8 (Source tcp))"
  "Marshal tcp ! 1 = ucast (Source tcp)"
  "Marshal tcp ! 2 = ucast (drop_bit 8 (Destination tcp))"
  "Marshal tcp ! 3 = ucast (Destination tcp)"
  "Marshal tcp ! 4 = ucast (drop_bit 24 (SeqNum tcp))"
  "Marshal tcp ! 5 = ucast (drop_bit 16 (SeqNum tcp))"
  "Marshal tcp ! 6 = ucast (drop_bit 8 (SeqNum tcp))"
  "Marshal tcp ! 7 = ucast (SeqNum tcp)"
  "Marshal tcp ! 8 = ucast (drop_bit 24 (AckNum tcp))"
  "Marshal tcp ! 9 = ucast (drop_bit 16 (AckNum tcp))"
  "Marshal tcp ! 10 = ucast (drop_bit 8 (AckNum tcp))"
  "Marshal tcp ! 11 = ucast (AckNum tcp)"
  "Marshal tcp ! 12 = pack_hi tcp"
  "Marshal tcp ! 13 = pack_lo tcp"
  "Marshal tcp ! 14 = ucast (drop_bit 8 (Window tcp))"
  "Marshal tcp ! 15 = ucast (Window tcp)"
  "Marshal tcp ! 16 = ucast (drop_bit 8 (Checksum tcp))"
  "Marshal tcp ! 17 = ucast (Checksum tcp)"
  "Marshal tcp ! 18 = ucast (drop_bit 8 (Urgent tcp))"
  "Marshal tcp ! 19 = ucast (Urgent tcp)"
  by (simp_all add: Marshal_def be16_def be32_def)

lemma length_Marshal: "length (Marshal tcp) = 20 + length (Options tcp)"
  by (simp add: Marshal_def be16_def be32_def)

text \<open>
  C1. Decoding the encoding of a validly constructed segment with data offset 5 and no
  options gives back the segment: every field (ports, sequence and acknowledgment
  numbers, data offset, reserved bits, flags, window, checksum, urgent pointer, options)
  is reproduced.
\<close>

theorem roundtrip:
  assumes "valid_plain tcp"
  shows "NewTCPHeader (Marshal tcp) = Some tcp"
proof -
  from assms have v: "DataOffset tcp < 16" "Reserved tcp < 8" "ECN tcp < 8" "Ctrl tcp < 64"
    and d5: "DataOffset tcp = 5" and o: "Options tcp = []"
    by (simp_all add: valid_plain_def)
  note u = unpack_fields [OF v, folded pack_hi_def pack_lo_def]
  have len: "length (Marshal tcp) = 20" by (simp add: length_Marshal o)
  have opts: "take (4 * unat (DataOffset tcp) - 20) (drop 20 (Marshal tcp)) = Options tcp"
    by (simp add: len o)
  have "NewTCPHeader (Marshal tcp) =
     Some \<lparr>Source = Source tcp, Destination = Destination tcp, SeqNum = SeqNum tcp,
        AckNum = AckNum tcp, DataOffset = DataOffset tcp, Reserved = Reserved tcp,
        ECN = ECN tcp, Ctrl = Ctrl tcp, Window = Window tcp, Checksum = Checksum tcp,
        Urgent = Urgent tcp, Options = Options tcp\<rparr>"
    unfolding NewTCPHeader_def
    by (simp only: Marshal_nth len u rd16_be16 rd32_be32 opts) simp
  then show ?thesis by simp
qed

theorem roundtrip_witness:
  "valid_plain \<lparr> Source = 0xaa47, Destination = 443, SeqNum = 0xdeadbeef, AckNum = 7,
       DataOffset = 5, Reserved = 0, ECN = 5, Ctrl = 18, Window = 0xaaaa,
       Checksum = 0x1234, Urgent = 9, Options = [] \<rparr> \<and>
   NewTCPHeader (Marshal \<lparr> Source = 0xaa47, Destination = 443, SeqNum = 0xdeadbeef,
       AckNum = 7, DataOffset = 5, Reserved = 0, ECN = 5, Ctrl = 18, Window = 0xaaaa,
       Checksum = 0x1234, Urgent = 9, Options = [] \<rparr>) =
   Some \<lparr> Source = 0xaa47, Destination = 443, SeqNum = 0xdeadbeef, AckNum = 7,
       DataOffset = 5, Reserved = 0, ECN = 5, Ctrl = 18, Window = 0xaaaa,
       Checksum = 0x1234, Urgent = 9, Options = [] \<rparr>"
proof -
  have v: "valid_plain \<lparr> Source = 0xaa47, Destination = 443, SeqNum = 0xdeadbeef,
       AckNum = 7, DataOffset = 5, Reserved = 0, ECN = 5, Ctrl = 18, Window = 0xaaaa,
       Checksum = 0x1234, Urgent = 9, Options = [] \<rparr>"
    by (simp add: valid_plain_def)
  show ?thesis using v roundtrip [OF v] by simp
qed

section \<open>Properties of the probe sender\<close>








text \<open>
  The computed value can be 0: for the sequence number 56379 the words of the
  pseudo-header and the segment add up to 0xFFFF.
\<close>

lemma Csum_may_be_zero:
  "Csum (Marshal (SynPacket 80 56379)) (192, 168, 1, 26) (192, 30, 252, 131) = 0 \<and>
   written (snd (sendSyn zero_sum_sender ''192.168.1.26'' ''192.30.252.131'' 80)) =
     [[170, 71, 0, 80, 0, 0, 220, 59, 0, 0, 0, 0, 80, 2, 170, 170, 0, 0, 0, 0]]"
  by code_simp

lemma sendSyn_Inr_Now:
  "fst (sendSyn env laddr raddr port) = Inr t \<Longrightarrow> t = Now env"
  by (auto simp: sendSyn_def Let_def split: sum.splits prod.splits if_splits)

text \<open>
  C9. When \<^verbatim>\<open>conn.Write\<close> returns an error, or fewer bytes than the serialized
  segment has, \<^verbatim>\<open>sendSyn\<close> ends in a failure and returns no send time, and the
  measurement ends in that failure without a latency value.
\<close>

theorem write_failure_fatal:
  assumes "to4byte laddr = Inr la" and "to4byte raddr = Inr ra"
    and "Write env (Marshal ((SynPacket port (rand_Uint32 env))
           \<lparr>Checksum := Csum (Marshal (SynPacket port (rand_Uint32 env))) la ra\<rparr>)) =
         (numWrote, err)"
    and "err \<or> numWrote < length (Marshal ((SynPacket port (rand_Uint32 env))
           \<lparr>Checksum := Csum (Marshal (SynPacket port (rand_Uint32 env))) la ra\<rparr>))"
    and "sender E = env" and "LookupHost E remoteHost = Some (raddr # others)"
  shows "(\<exists>e. fst (sendSyn env laddr raddr port) = Inl e) \<and>
         (\<exists>e. result (latency E laddr remoteHost port) = Fatal e)"
proof -
  from assms(1-4) have "\<exists>e. fst (sendSyn env laddr raddr port) = Inl e"
    by (auto simp: sendSyn_def Let_def)
  then obtain e where e: "fst (sendSyn env laddr raddr port) = Inl e" ..
  then have "result (latency E laddr remoteHost port) = Fatal e"
    using assms(5,6) by (auto simp: latency_def split: prod.splits)
  with e show ?thesis by blast
qed

theorem write_failure_fatal_witness:
  "fst (sendSyn short_sender ''192.168.1.26'' ''192.30.252.131'' 80) = Inl ShortWrite \<and>
   result (latency short_env ''192.168.1.26'' ''github.com'' 80) = Fatal ShortWrite"
proof -
  have l: "to4byte ''192.168.1.26'' = Inr (192, 168, 1, 26)" by code_simp
  have r: "to4byte ''192.30.252.131'' = Inr (192, 30, 252, 131)" by code_simp
  have w: "Write short_sender (Marshal ((SynPacket 80 (rand_Uint32 short_sender))
       \<lparr>Checksum := Csum (Marshal (SynPacket 80 (rand_Uint32 short_sender)))
          (192, 168, 1, 26) (192, 30, 252, 131)\<rparr>)) = (12, False)"
    by (simp add: short_sender_def)
  have n: "False \<or> 12 < length (Marshal ((SynPacket 80 (rand_Uint32 short_sender))
       \<lparr>Checksum := Csum (Marshal (SynPacket 80 (rand_Uint32 short_sender)))
          (192, 168, 1, 26) (192, 30, 252, 131)\<rparr>))"
    by (simp add: length_Marshal SynPacket_def)
  have s: "sender short_env = short_sender" by (simp add: short_env_def)
  have h: "LookupHost short_env ''github.com'' = Some (''192.30.252.131'' # [])"
    by (simp add: short_env_def github_def)
  have a: "fst (sendSyn short_sender ''192.168.1.26'' ''192.30.252.131'' 80) = Inl ShortWrite"
    by code_simp
  have b: "result (latency short_env ''192.168.1.26'' ''github.com'' 80) = Fatal ShortWrite"
    by code_simp
  from write_failure_fatal [OF l r w n s h] a b show ?thesis by simp
qed

section \<open>Properties of the orchestrator\<close>

text \<open>
  C7. When the host name does not resolve, \<^verbatim>\<open>latency\<close> ends in the failure of the
  lookup and neither task has done anything: no socket was dialled and none was opened
  for listening.
\<close>

theorem resolution_failure_opens_nothing:
  assumes "LookupHost E remoteHost = None"
  shows "latency E localAddr remoteHost port =
           \<lparr> result = Fatal LookupHostFailed, sent = [], listened = [] \<rparr>"
  using assms by (simp add: latency_def)

theorem resolution_failure_witness:
  "LookupHost good_env ''nowhere.invalid'' = None \<and>
   latency good_env ''192.168.1.26'' ''nowhere.invalid'' 80 =
     \<lparr> result = Fatal LookupHostFailed, sent = [], listened = [] \<rparr>"
proof -
  have h: "LookupHost good_env ''nowhere.invalid'' = None"
    by (simp add: good_env_def github_def)
  from resolution_failure_opens_nothing [OF h] h show ?thesis by simp
qed

text \<open>
  C5. When the sender returns the send time \<open>T0\<close>, read from the clock, and the listener
  returns \<open>T0 + \<Delta>\<close>, the measurement reports \<open>\<Delta>\<close> as it is, negative or not, for every
  \<open>\<Delta>\<close> that a 64-bit duration holds.
\<close>

theorem latency_is_difference:
  assumes "LookupHost E remoteHost = Some (remoteAddr # others)"
    and "fst (sendSyn (sender E) localAddr remoteAddr port) = Inr T0"
    and "fst (receiveSynAck (listener E) localAddr remoteAddr) = Returned (T0 + \<Delta>)"
    and "- (2 ^ 63) \<le> \<Delta>" and "\<Delta> < 2 ^ 63"
  shows "T0 = Now (sender E) \<and> result (latency E localAddr remoteHost port) = Latency \<Delta>"
proof -
  have "T0 = Now (sender E)" using assms(2) by (rule sendSyn_Inr_Now)
  moreover have "Sub (T0 + \<Delta>) T0 = \<Delta>" using assms(4,5) by (simp add: Sub_def)
  ultimately show ?thesis
    using assms(1-3) by (auto simp: latency_def split: prod.splits)
qed

theorem latency_is_difference_witness:
  "Now (sender good_env) = 1000 \<and>
   result (latency good_env ''192.168.1.26'' ''github.com'' 80) = Latency 300"
proof -
  have h: "LookupHost good_env ''github.com'' = Some (''192.30.252.131'' # [])"
    by (simp add: good_env_def github_def)
  have s: "fst (sendSyn (sender good_env) ''192.168.1.26'' ''192.30.252.131'' 80) = Inr 1000"
    by code_simp
  have r: "fst (receiveSynAck (listener good_env) ''192.168.1.26'' ''192.30.252.131'') =
      Returned (1000 + 300)"
    by code_simp
  have lo: "- (2 ^ 63) \<le> (300::int)" by simp
  have hi: "(300::int) < 2 ^ 63" by simp
  from latency_is_difference [OF h s r lo hi] show ?thesis by simp
qed

section \<open>Properties of the reply listener\<close>

lemma ReadFrom_slice: "ReadFrom n p = (k, buf) \<Longrightarrow> take k buf = take n p"
  by (auto simp: ReadFrom_def min_def)

lemma NewTCPHeader_Some: "20 \<le> length p \<Longrightarrow> \<exists>tcp. NewTCPHeader (take 1024 p) = Some tcp"
  by (simp add: NewTCPHeader_def)

lemma receive_loop_step:
  "receive_loop remote rt (Datagram d # evs) =
     (if src d \<noteq> remote
      then prepend [AReadFrom, AFilter (src d)] (receive_loop remote rt evs)
      else case NewTCPHeader (take 1024 (payload d)) of
             None \<Rightarrow> (Failed ShortSegment,
               [AReadFrom, AFilter (src d), ANow, ADecode (take 1024 (payload d))])
           | Some tcp \<Rightarrow>
               if HasFlag tcp RST \<or> (HasFlag tcp SYN \<and> HasFlag tcp ACK)
               then (Returned (clock d),
                 [AReadFrom, AFilter (src d), ANow, ADecode (take 1024 (payload d))])
               else prepend [AReadFrom, AFilter (src d), ANow, ADecode (take 1024 (payload d))]
                      (receive_loop remote (clock d) evs))"
proof -
  obtain k buf where rf: "ReadFrom 1024 (payload d) = (k, buf)" by (cases "ReadFrom 1024 (payload d)")
  then have sl: "take k buf = take 1024 (payload d)" by (rule ReadFrom_slice)
  show ?thesis by (simp add: rf sl Let_def split: option.splits)
qed

lemma receive_loop_first_match:
  assumes "\<forall>d\<in>set ds. src d = remote \<longrightarrow> 20 \<le> length (payload d)"
  shows "fst (receive_loop remote rt (map Datagram ds)) =
           (case find (qualifies remote) ds of None \<Rightarrow> Blocked | Some d \<Rightarrow> Returned (clock d))"
  using assms
proof (induction ds arbitrary: rt)
  case Nil
  then show ?case by simp
next
  case (Cons d ds)
  have ih: "\<And>rt. fst (receive_loop remote rt (map Datagram ds)) =
           (case find (qualifies remote) ds of None \<Rightarrow> Blocked | Some d \<Rightarrow> Returned (clock d))"
    using Cons by simp
  show ?case
  proof (cases "src d = remote")
    case False
    then have q: "\<not> qualifies remote d" by (simp add: qualifies_def)
    from False show ?thesis
      by (simp only: list.map receive_loop_step) (simp add: prepend_def ih q)
  next
    case True
    with Cons.prems have "20 \<le> length (payload d)" by simp
    then obtain tcp where tcp: "NewTCPHeader (take 1024 (payload d)) = Some tcp"
      using NewTCPHeader_Some by blast
    have q: "qualifies remote d = (HasFlag tcp RST \<or> (HasFlag tcp SYN \<and> HasFlag tcp ACK))"
      by (simp add: qualifies_def True tcp)
    show ?thesis
      by (simp only: list.map receive_loop_step) (simp add: True tcp prepend_def ih q)
  qed
qed

text \<open>
  C4. With the socket open and a sequence of datagrams arriving, the listener returns the
  clock reading taken for the first datagram that comes from the remote address and
  decodes to a segment with the RST flag, or with both SYN and ACK. Datagrams from other
  addresses and segments without these flags (a pure ACK for one) do not end the loop;
  when no datagram qualifies the listener stays blocked. Datagrams from the remote
  address are taken to hold the 20 bytes of a header.
\<close>

theorem listener_first_match:
  assumes "ResolveIPAddr_ok env" and "ListenIP_ok env"
    and "reads env = map Datagram ds"
    and "\<forall>d\<in>set ds. src d = remoteAddress \<longrightarrow> 20 \<le> length (payload d)"
  shows "fst (receiveSynAck env localAddress remoteAddress) =
           (case find (qualifies remoteAddress) ds of
              None \<Rightarrow> Blocked
            | Some d \<Rightarrow> Returned (clock d))"
  using assms(1-3) receive_loop_first_match [OF assms(4), of 0]
  by (simp add: receiveSynAck_def prepend_def)

theorem listener_first_match_witness:
  "fst (receiveSynAck busy_listener ''192.168.1.26'' ''192.30.252.131'') = Returned 1300"
proof -
  have a: "ResolveIPAddr_ok busy_listener" and b: "ListenIP_ok busy_listener"
    by (simp_all add: busy_listener_def)
  have c: "reads busy_listener = map Datagram [
       \<lparr> src = ''10.0.0.9'', payload = rst_segment, clock = 1100 \<rparr>,
       \<lparr> src = ''192.30.252.131'', payload = ack_segment, clock = 1200 \<rparr>,
       \<lparr> src = ''192.30.252.131'', payload = synack_segment, clock = 1300 \<rparr>,
       \<lparr> src = ''192.30.252.131'', payload = rst_segment, clock = 1400 \<rparr> ]"
    by (simp add: busy_listener_def)
  have d: "\<forall>d\<in>set [
       \<lparr> src = ''10.0.0.9'', payload = rst_segment, clock = 1100 \<rparr>,
       \<lparr> src = ''192.30.252.131'', payload = ack_segment, clock = 1200 \<rparr>,
       \<lparr> src = ''192.30.252.131'', payload = synack_segment, clock = 1300 \<rparr>,
       \<lparr> src = ''192.30.252.131'', payload = rst_segment, clock = 1400 \<rparr> ].
     src d = ''192.30.252.131'' \<longrightarrow> 20 \<le> length (payload d)"
    by (simp add: rst_segment_def ack_segment_def synack_segment_def)
  have f: "find (qualifies ''192.30.252.131'') [
       \<lparr> src = ''10.0.0.9'', payload = rst_segment, clock = 1100 \<rparr>,
       \<lparr> src = ''192.30.252.131'', payload = ack_segment, clock = 1200 \<rparr>,
       \<lparr> src = ''192.30.252.131'', payload = synack_segment, clock = 1300 \<rparr>,
       \<lparr> src = ''192.30.252.131'', payload = rst_segment, clock = 1400 \<rparr> ] =
     Some \<lparr> src = ''192.30.252.131'', payload = synack_segment, clock = 1300 \<rparr>"
    by code_simp
  from listener_first_match [OF a b c d, of "''192.168.1.26''"] show ?thesis
    by (simp only: f option.case datagram.select_convs)
qed





lemma receive_loop_iterations: "iterations remote (snd (receive_loop remote rt evs))"
proof (induction evs arbitrary: rt)
  case Nil
  then show ?case by simp
next
  case (Cons ev evs)
  show ?case
  proof (cases ev)
    case ReadErr
    then show ?thesis by simp
  next
    case (Datagram d)
    then show ?thesis
      by (simp only: receive_loop_step)
         (auto simp: prepend_def Cons.IH split: option.splits)
  qed
qed

text \<open>
  C6 (as amended). In every iteration of the loop the clock is read after the read has
  returned and after the source of the datagram has been compared with the remote
  address, only for a datagram whose source is the remote address, and before the
  datagram is decoded.
\<close>

theorem stamp_after_filter:
  assumes "ResolveIPAddr_ok env" and "ListenIP_ok env"
  shows "snd (receiveSynAck env localAddress remoteAddress) =
           AListenIP localAddress # snd (receive_loop remoteAddress 0 (reads env)) \<and>
         iterations remoteAddress (snd (receive_loop remoteAddress 0 (reads env)))"
  using assms by (simp add: receiveSynAck_def prepend_def receive_loop_iterations)

theorem stamp_after_filter_witness:
  "snd (receiveSynAck busy_listener ''192.168.1.26'' ''192.30.252.131'') =
     AListenIP ''192.168.1.26'' # snd (receive_loop ''192.30.252.131'' 0 (reads busy_listener)) \<and>
   iterations ''192.30.252.131'' (snd (receive_loop ''192.30.252.131'' 0 (reads busy_listener)))"
proof -
  have a: "ResolveIPAddr_ok busy_listener" and b: "ListenIP_ok busy_listener"
    by (simp_all add: busy_listener_def)
  from stamp_after_filter [OF a b] show ?thesis .
qed

text \<open>
  The clock is not read on receipt: in this run the first datagram is dropped by the
  filter without a reading of the clock, and for the other two the comparison with the
  remote address comes between the read and the reading of the clock.
\<close>

theorem stamp_on_receipt_fails:
  "snd (receiveSynAck busy_listener ''192.168.1.26'' ''192.30.252.131'') =
     [AListenIP ''192.168.1.26'',
      AReadFrom, AFilter ''10.0.0.9'',
      AReadFrom, AFilter ''192.30.252.131'', ANow, ADecode ack_segment,
      AReadFrom, AFilter ''192.30.252.131'', ANow, ADecode synack_segment] \<and>
   \<not> stamped_on_receipt (snd (receiveSynAck busy_listener ''192.168.1.26'' ''192.30.252.131''))"
  by code_simp

section \<open>Properties of the address parser\<close>

text \<open>
  A colon is not a digit, so \<^verbatim>\<open>Atoi\<close> reports an error for every string that holds
  one; the first dot-separated part of an IPv6 literal is such a string.
\<close>

lemma colon_not_digit: "\<not> is_digit CHR '':''"
  by (simp add: is_digit_def)

lemma Atoi_colon:
  assumes "CHR '':'' \<in> set s"
  shows "snd (Atoi s)"
proof -
  have nd: "\<not> list_all is_digit
      (if s \<noteq> [] \<and> (hd s = CHR ''+'' \<or> hd s = CHR ''-'') then tl s else s)"
    using assms colon_not_digit by (cases s) (auto simp: list_all_iff)
  show ?thesis
    unfolding Atoi_def Let_def by (simp only: nd) simp
qed

text \<open>
  C8 (as amended). An address whose first dot-separated part is not a decimal integer, as
  in every IPv6 literal, makes \<^verbatim>\<open>to4byte\<close> fail, and \<^verbatim>\<open>sendSyn\<close> then fails
  without having opened a socket or written a byte, whether the address is the local or
  the remote one.
\<close>

theorem to4byte_rejects_first_part:
  assumes "snd (Atoi (Split addr CHR ''.'' ! 0))"
  shows "to4byte addr = Inl To4byteFailed \<and>
         sendSyn env addr raddr port = (Inl To4byteFailed, []) \<and>
         (\<exists>e. sendSyn env laddr addr port = (Inl e, []))"
proof -
  have t: "to4byte addr = Inl To4byteFailed"
    using assms by (cases "Atoi (Split addr CHR ''.'' ! 0)") (simp add: to4byte_def Let_def)
  then show ?thesis
    by (simp add: sendSyn_def Let_def split: sum.splits)
qed

theorem to4byte_rejects_first_part_witness:
  "snd (Atoi (Split ''fe80::1'' CHR ''.'' ! 0)) \<and>
   to4byte ''fe80::1'' = Inl To4byteFailed \<and>
   sendSyn good_sender ''fe80::1'' ''192.30.252.131'' 80 = (Inl To4byteFailed, []) \<and>
   sendSyn good_sender ''192.168.1.26'' ''fe80::1'' 80 = (Inl To4byteFailed, [])"
proof -
  have a: "snd (Atoi (Split ''fe80::1'' CHR ''.'' ! 0))" by code_simp
  have l: "to4byte ''192.168.1.26'' = Inr (192, 168, 1, 26)" by code_simp
  from to4byte_rejects_first_part [OF a, of good_sender "''192.30.252.131''" 80 "''192.168.1.26''"]
  have "\<exists>e. sendSyn good_sender ''192.168.1.26'' ''fe80::1'' 80 = (Inl e, [])"
    and t: "to4byte ''fe80::1'' = Inl To4byteFailed" by simp_all
  then have "sendSyn good_sender ''192.168.1.26'' ''fe80::1'' 80 = (Inl To4byteFailed, [])"
    by (simp add: sendSyn_def Let_def l t)
  with a to4byte_rejects_first_part [OF a, of good_sender "''192.30.252.131''" 80 "''192.168.1.26''"]
  show ?thesis by simp
qed

text \<open>
  Other malformed addresses are not rejected: a non-numeric later part counts as 0, a
  part beyond 255 is cut to its low 8 bits, and a segment whose checksum covers these
  bytes is written; fewer than four parts is an index out of range.
\<close>

theorem to4byte_accepts_garbage:
  "to4byte ''1.2.x.4'' = Inr (1, 2, 0, 4) \<and>
   to4byte ''256.1.1.1'' = Inr (0, 1, 1, 1) \<and>
   to4byte ''1.2'' = Inl IndexOutOfRange \<and>
   sendSyn good_sender ''1.2.x.4'' ''192.30.252.131'' 80 =
     (Inr 1000,
      [ADial ''192.30.252.131'', ANow,
       AWrite [170, 71, 0, 80, 0, 0, 0, 1, 0, 0, 0, 0, 80, 2, 170, 170, 156, 247, 0, 0],
       AClose])"
  by code_simp

end
